theory Spec2Isabelle
  imports Main "HOL-Library.Word"
begin

unbundle bit_operations_syntax

section \<open>The 16550 UART device of rv8 (src/emu/device-uart.h)\<close>

text \<open>
  The device is a register file of twelve bytes, decoded from the low addresses 0..7 of
  a memory segment, and a console thread that buffers the bytes typed on the host.
  The model is sequential: it describes what one call of \<open>load_8\<close>, \<open>store_8\<close> or
  \<open>service\<close> does to the device, given the contents of the console's queue at the
  time of the call. The console thread itself (\<open>mainloop\<close>, \<open>poll\<close>, the terminal
  modes) is the environment; it appears only as a step that changes the console.
\<close>

type_synonym u8 = "8 word"

text \<open>
  \<open>UX\<close> is \<open>typename P::ux\<close>, the unsigned register type of the processor; the device
  only compares it with the register offsets 0..7. It is taken at 64 bits (rv64).
\<close>

type_synonym ux = "64 word"

subsection \<open>Console thread\<close>

text \<open>
  Modelled from the spec: \<^verbatim>\<open>queue_atomic<char>\<close> is declared outside this file. The
  input byte buffer is an ordered sequence of bytes, insertion order = read order; it is
  a list with the oldest byte at the head. \<open>size\<close> is the number of buffered bytes and
  \<open>pop_front\<close> removes and returns the oldest one. \<open>read_char\<close>, the only caller,
  checks the size first; on the empty queue \<open>pop_front\<close> is given the zero byte.
\<close>

type_synonym queue_atomic = "u8 list"

definition queue_size :: "queue_atomic \<Rightarrow> nat" where
  "queue_size q = length q"

fun pop_front :: "queue_atomic \<Rightarrow> u8 \<times> queue_atomic" where
  "pop_front [] = (0, [])"
| "pop_front (c # q) = (c, q)"

text \<open>
  The fields of \<open>console_thread\<close> that the device's calls touch: the queue of received
  bytes and the wakeup pipe. \<open>pipe\<close> holds the bytes written to \<open>pipefds[1]\<close> and not
  yet read by the thread, \<open>pipe_limit\<close> is the room the host gives the (non-blocking)
  pipe: a \<open>write\<close> to a full pipe fails, and the failure is only reported by \<open>debug\<close>.
\<close>

record console_thread =
  queue :: queue_atomic
  pipe :: "u8 list"
  pipe_limit :: nat
  debug_out :: "string list"

text \<open>\<open>bool has_char() { return queue.size() > 0; }\<close>\<close>

definition has_char :: "console_thread \<Rightarrow> bool" where
  "has_char c = (queue_size (queue c) > 0)"

text \<open>\<open>u8 read_char() { return queue.size() > 0 ? queue.pop_front() : 0; }\<close>\<close>

definition read_char :: "console_thread \<Rightarrow> u8 \<times> console_thread" where
  "read_char c =
     (if queue_size (queue c) > 0
      then (let (b, q) = pop_front (queue c) in (b, c\<lparr>queue := q\<rparr>))
      else (0, c))"

text \<open>
  \<open>void write_char(u8 c) { if (write(pipefds[1], &c, 1) < 0) debug(...); }\<close>
\<close>

definition write_char :: "console_thread \<Rightarrow> u8 \<Rightarrow> console_thread" where
  "write_char c b =
     (if length (pipe c) < pipe_limit c
      then c\<lparr>pipe := pipe c @ [b]\<rparr>
      else c\<lparr>debug_out := debug_out c @ [''console: socket: write'']\<rparr>)"

subsection \<open>Registers and constants\<close>

record com_regs =
  rbr :: u8
  thr :: u8
  ier :: u8
  iir :: u8
  fcr :: u8
  lcr :: u8
  mcr :: u8
  lsr :: u8
  msr :: u8
  scr :: u8
  dll :: u8
  dlm :: u8

abbreviation REG_RBR :: ux where "REG_RBR \<equiv> 0"
abbreviation REG_THR :: ux where "REG_THR \<equiv> 0"
abbreviation REG_DLL :: ux where "REG_DLL \<equiv> 0"
abbreviation REG_IER :: ux where "REG_IER \<equiv> 1"
abbreviation REG_DLM :: ux where "REG_DLM \<equiv> 1"
abbreviation REG_IIR :: ux where "REG_IIR \<equiv> 2"
abbreviation REG_FCR :: ux where "REG_FCR \<equiv> 2"
abbreviation REG_LCR :: ux where "REG_LCR \<equiv> 3"
abbreviation REG_MCR :: ux where "REG_MCR \<equiv> 4"
abbreviation REG_LSR :: ux where "REG_LSR \<equiv> 5"
abbreviation REG_MSR :: ux where "REG_MSR \<equiv> 6"
abbreviation REG_SCR :: ux where "REG_SCR \<equiv> 7"

abbreviation IER_ERBDA :: u8 where "IER_ERBDA \<equiv> 0x01"
abbreviation IER_MASK :: u8 where "IER_MASK \<equiv> 0x0f"
abbreviation IIR_TX_RDY :: u8 where "IIR_TX_RDY \<equiv> 0x02"
abbreviation IIR_RX_RDY :: u8 where "IIR_RX_RDY \<equiv> 0x04"
abbreviation IIR_RD_LSR :: u8 where "IIR_RD_LSR \<equiv> 0x06"
abbreviation LCR_DLAB :: u8 where "LCR_DLAB \<equiv> 0x80"
abbreviation LSR_DA :: u8 where "LSR_DA \<equiv> 0x01"
abbreviation LSR_RE :: u8 where "LSR_RE \<equiv> 0x20"
abbreviation MSR_DSR :: u8 where "MSR_DSR \<equiv> 0x20"
abbreviation MSR_DCD :: u8 where "MSR_DCD \<equiv> 0x80"

subsection \<open>The device\<close>

text \<open>
  A line printed by the register trace: \<open>uart_mmio:0x.. -> 0x..\<close> for a load,
  \<open>uart_mmio:0x.. <- 0x..\<close> for a store.
\<close>

datatype mmio_trace = Trace_load ux u8 | Trace_store ux u8

text \<open>
  \<open>log_mmio\<close> is the test \<open>proc.log & proc_log_mmio\<close> of the owning processor and
  \<open>printed\<close> the trace lines written so far.

  Modelled from the spec: \<open>plic_mmio_device\<close> is declared outside this file; its
  \<open>signal_irq(line)\<close> is fire-and-forget. \<open>plic\<close> is the sequence of lines signalled
  so far.
\<close>

record uart_mmio_device =
  log_mmio :: bool
  printed :: "mmio_trace list"
  plic :: "ux list"
  irq :: ux
  console :: console_thread
  com :: com_regs

text \<open>
  The constructor: \<open>com{0}\<close> clears every register, the console thread starts with an
  empty queue of capacity 1024 and an empty pipe.
\<close>

definition console_thread_init :: "nat \<Rightarrow> console_thread" where
  "console_thread_init room = \<lparr>queue = [], pipe = [], pipe_limit = room, debug_out = []\<rparr>"

definition uart_mmio_device_init :: "bool \<Rightarrow> nat \<Rightarrow> ux \<Rightarrow> uart_mmio_device" where
  "uart_mmio_device_init lg room line =
     \<lparr>log_mmio = lg, printed = [], plic = [], irq = line,
      console = console_thread_init room,
      com = \<lparr>rbr = 0, thr = 0, ier = 0, iir = 0, fcr = 0, lcr = 0, mcr = 0,
             lsr = 0, msr = 0, scr = 0, dll = 0, dlm = 0\<rparr>\<rparr>"

text \<open>
  \<open>void service() { if ((com.ier & IER_ERBDA) && console->has_char()) plic->signal_irq(irq); }\<close>
\<close>

definition service :: "uart_mmio_device \<Rightarrow> uart_mmio_device" where
  "service d =
     (if ier (com d) AND IER_ERBDA \<noteq> 0 \<and> has_char (console d)
      then d\<lparr>plic := plic d @ [irq d]\<rparr>
      else d)"

text \<open>
  \<open>load_8 (UX va, u8 &val)\<close> writes its result through the reference \<open>val\<close>: the
  model takes the byte the caller's variable holds before the call and returns the byte
  it holds after it.

  The first switch, taken when \<open>com.lcr & LCR_DLAB\<close>: offsets 0 and 1 read the divisor
  latch, the \<open>default\<close> label leaves \<open>val\<close> as it is.
\<close>

definition load_8_dlab :: "uart_mmio_device \<Rightarrow> ux \<Rightarrow> u8 \<Rightarrow> u8 \<times> uart_mmio_device" where
  "load_8_dlab d va val =
     (if va = REG_DLL then (dll (com d), d)
      else if va = REG_DLM then (dlm (com d), d)
      else (val, d))"

text \<open>
  The second switch. \<open>case REG_IER\<close> assigns \<open>com.ier\<close> and has no \<open>break\<close>: control
  falls into \<open>case REG_IIR\<close>, which assigns \<open>val\<close> again.
\<close>

definition load_8_regs :: "uart_mmio_device \<Rightarrow> ux \<Rightarrow> u8 \<Rightarrow> u8 \<times> uart_mmio_device" where
  "load_8_regs d va val =
     (if va = REG_RBR then
        (let d' = (if has_char (console d)
                   then (let (b, c) = read_char (console d)
                         in d\<lparr>console := c, com := (com d)\<lparr>rbr := b\<rparr>\<rparr>)
                   else d)
         in (rbr (com d'), d'))
      else if va = REG_IER then
        (let val = ier (com d);
             val = (if has_char (console d) then IIR_RD_LSR else IIR_TX_RDY)
         in (val, d))
      else if va = REG_IIR then
        (if has_char (console d) then IIR_RD_LSR else IIR_TX_RDY, d)
      else if va = REG_LCR then (lcr (com d), d)
      else if va = REG_MCR then (mcr (com d), d)
      else if va = REG_LSR then
        (LSR_RE OR (if has_char (console d) then LSR_DA else 0), d)
      else if va = REG_MSR then (MSR_DCD OR MSR_DSR, d)
      else if va = REG_SCR then (scr (com d), d)
      else (0, d))"

definition load_8 :: "uart_mmio_device \<Rightarrow> ux \<Rightarrow> u8 \<Rightarrow> u8 \<times> uart_mmio_device" where
  "load_8 d va val0 =
     (let (val, d') = (if lcr (com d) AND LCR_DLAB \<noteq> 0
                       then load_8_dlab d va val0
                       else load_8_regs d va val0)
      in (val, if log_mmio d' then d'\<lparr>printed := printed d' @ [Trace_load va val]\<rparr>
               else d'))"

text \<open>\<open>store_8 (UX va, u8 val)\<close>: the trace line first, then the two switches.\<close>

definition store_8_dlab :: "uart_mmio_device \<Rightarrow> ux \<Rightarrow> u8 \<Rightarrow> uart_mmio_device" where
  "store_8_dlab d va val =
     (if va = REG_DLL then d\<lparr>com := (com d)\<lparr>dll := val\<rparr>\<rparr>
      else if va = REG_DLM then d\<lparr>com := (com d)\<lparr>dlm := val\<rparr>\<rparr>
      else d)"

definition store_8_regs :: "uart_mmio_device \<Rightarrow> ux \<Rightarrow> u8 \<Rightarrow> uart_mmio_device" where
  "store_8_regs d va val =
     (if va = REG_THR then
        d\<lparr>com := (com d)\<lparr>thr := val\<rparr>, console := write_char (console d) val\<rparr>
      else if va = REG_IER then d\<lparr>com := (com d)\<lparr>ier := val AND IER_MASK\<rparr>\<rparr>
      else if va = REG_FCR then d
      else if va = REG_LCR then d\<lparr>com := (com d)\<lparr>lcr := val\<rparr>\<rparr>
      else if va = REG_MCR then d\<lparr>com := (com d)\<lparr>mcr := val\<rparr>\<rparr>
      else if va = REG_LSR then d
      else if va = REG_MSR then d
      else if va = REG_SCR then d\<lparr>com := (com d)\<lparr>scr := val\<rparr>\<rparr>
      else d)"

definition store_8 :: "uart_mmio_device \<Rightarrow> ux \<Rightarrow> u8 \<Rightarrow> uart_mmio_device" where
  "store_8 d va val =
     (let d' = (if log_mmio d then d\<lparr>printed := printed d @ [Trace_store va val]\<rparr>
                else d)
      in if lcr (com d') AND LCR_DLAB \<noteq> 0
         then store_8_dlab d' va val
         else store_8_regs d' va val)"

subsection \<open>Reachable device states\<close>

text \<open>
  The states a device can be in: the constructed one, and every state that a load, a
  store or a service call leads to. Between two calls the console thread may change the
  console in any way (append a byte from the host to the queue, take bytes out of the
  pipe); it never writes the registers.
\<close>

inductive reachable :: "uart_mmio_device \<Rightarrow> bool" where
  reach_init: "reachable (uart_mmio_device_init lg room line)"
| reach_load: "reachable d \<Longrightarrow> reachable (snd (load_8 d va val))"
| reach_store: "reachable d \<Longrightarrow> reachable (store_8 d va val)"
| reach_service: "reachable d \<Longrightarrow> reachable (service d)"
| reach_console: "reachable d \<Longrightarrow> reachable (d\<lparr>console := c\<rparr>)"

subsection \<open>Concrete device states\<close>

text \<open>
  A device as constructed (tracing off, room for 16 bytes in the pipe, interrupt line
  10); the same device after the host has typed \<open>A\<close> and \<open>B\<close>; the device after the
  guest has set DLAB; and after it has then written the divisor 0xaa55.
\<close>

definition uart_reset :: uart_mmio_device where
  "uart_reset = uart_mmio_device_init False 16 10"

definition uart_keyed :: uart_mmio_device where
  "uart_keyed = uart_reset\<lparr>console := (console uart_reset)\<lparr>queue := [0x41, 0x42]\<rparr>\<rparr>"

definition uart_dlab :: uart_mmio_device where
  "uart_dlab = store_8 uart_reset REG_LCR 0x80"

definition uart_divisor :: uart_mmio_device where
  "uart_divisor = store_8 (store_8 uart_dlab REG_DLL 0x55) REG_DLM 0xaa"

lemmas fixture_defs = uart_reset_def uart_keyed_def uart_dlab_def uart_divisor_def
  uart_mmio_device_init_def console_thread_init_def

lemmas uart_defs = load_8_def load_8_dlab_def load_8_regs_def
  store_8_def store_8_dlab_def store_8_regs_def service_def
  has_char_def read_char_def write_char_def queue_size_def

section \<open>Properties\<close>

subsection \<open>The console's queue\<close>

lemma has_char_iff: "has_char c \<longleftrightarrow> queue c \<noteq> []"
  by (simp add: has_char_def queue_size_def)

text \<open>
  C8: \<open>read_char\<close> is a total function of the console: on an empty queue it returns the
  byte 0 and leaves the console as it is; on a queue whose oldest byte is \<open>b\<close> it
  returns \<open>b\<close> and removes exactly that byte, keeping the order of the rest.
\<close>

theorem read_char_fifo:
  "(queue c = [] \<longrightarrow> read_char c = (0, c)) \<and>
   (\<forall>b q. queue c = b # q \<longrightarrow> read_char c = (b, c\<lparr>queue := q\<rparr>))"
  by (simp add: read_char_def queue_size_def)

theorem read_char_fifo_witness:
  "read_char (console uart_reset) = (0, console uart_reset) \<and>
   read_char (console uart_keyed) = (0x41, (console uart_keyed)\<lparr>queue := [0x42]\<rparr>)"
proof -
  have e: "queue (console uart_reset) = []"
    by (simp add: fixture_defs)
  have k: "queue (console uart_keyed) = [0x41, 0x42]"
    by (simp add: fixture_defs)
  from read_char_fifo [of "console uart_reset"] e
  have "read_char (console uart_reset) = (0, console uart_reset)" by blast
  moreover from read_char_fifo [of "console uart_keyed"] k
  have "read_char (console uart_keyed) = (0x41, (console uart_keyed)\<lparr>queue := [0x42]\<rparr>)"
    by blast
  ultimately show ?thesis by simp
qed

subsection \<open>Service\<close>

text \<open>
  C4: \<open>service\<close> signals the configured line, once, exactly when bit 0 of the stored
  IER (received-data interrupt enable) is set and the console has a buffered byte. When
  either fails the device is unchanged, and in every case nothing but the record of
  signalled lines changes.
\<close>

theorem service_signals:
  "(plic (service d) = plic d @ [irq d] \<longleftrightarrow> bit (ier (com d)) 0 \<and> has_char (console d)) \<and>
   (\<not> (bit (ier (com d)) 0 \<and> has_char (console d)) \<longrightarrow> service d = d) \<and>
   service d = d\<lparr>plic := plic (service d)\<rparr>"
  by (simp add: service_def and_one_eq bit_0 mod_2_eq_odd)

theorem service_signals_witness:
  "plic (service (store_8 uart_keyed REG_IER 0x01)) = [10] \<and>
   service uart_keyed = uart_keyed \<and>
   service (store_8 uart_reset REG_IER 0x01) = store_8 uart_reset REG_IER 0x01"
proof -
  have a: "bit (ier (com (store_8 uart_keyed REG_IER 0x01))) 0"
    "has_char (console (store_8 uart_keyed REG_IER 0x01))"
    "plic (store_8 uart_keyed REG_IER 0x01) = []"
    "irq (store_8 uart_keyed REG_IER 0x01) = 10"
    by (simp_all add: fixture_defs uart_defs)
  have b: "\<not> bit (ier (com uart_keyed)) 0"
    by (simp add: fixture_defs)
  have c: "\<not> has_char (console (store_8 uart_reset REG_IER 0x01))"
    by (simp add: fixture_defs uart_defs)
  from service_signals [of "store_8 uart_keyed REG_IER 0x01"] a
  have "plic (service (store_8 uart_keyed REG_IER 0x01)) = [10]" by simp
  moreover from service_signals [of uart_keyed] b
  have "service uart_keyed = uart_keyed" by blast
  moreover from service_signals [of "store_8 uart_reset REG_IER 0x01"] c
  have "service (store_8 uart_reset REG_IER 0x01) = store_8 uart_reset REG_IER 0x01" by blast
  ultimately show ?thesis by simp
qed

subsection \<open>Loads with DLAB clear\<close>

text \<open>
  C6: with DLAB clear, a load of offset 0 on a device whose queue is empty returns the
  stored RBR and changes neither the registers nor the console; on a device whose
  queue holds \<open>b\<close> as its oldest byte it returns \<open>b\<close>, stores \<open>b\<close> in RBR and
  removes \<open>b\<close> from the queue.
\<close>

theorem load_rbr:
  assumes "lcr (com d) AND LCR_DLAB = 0"
  shows "case queue (console d) of
           [] \<Rightarrow> \<not> has_char (console d) \<and> fst (load_8 d REG_RBR v) = rbr (com d) \<and>
                 com (snd (load_8 d REG_RBR v)) = com d \<and>
                 console (snd (load_8 d REG_RBR v)) = console d
         | b # q \<Rightarrow> has_char (console d) \<and> fst (load_8 d REG_RBR v) = b \<and>
                 com (snd (load_8 d REG_RBR v)) = (com d)\<lparr>rbr := b\<rparr> \<and>
                 console (snd (load_8 d REG_RBR v)) = (console d)\<lparr>queue := q\<rparr>"
  using assms
  by (simp add: load_8_def load_8_regs_def read_char_def has_char_def queue_size_def
      split: list.split)

theorem load_rbr_witness:
  "fst (load_8 uart_keyed REG_RBR 0) = 0x41 \<and>
   rbr (com (snd (load_8 uart_keyed REG_RBR 0))) = 0x41 \<and>
   queue (console (snd (load_8 uart_keyed REG_RBR 0))) = [0x42] \<and>
   fst (load_8 uart_reset REG_RBR 0x7f) = 0 \<and>
   com (snd (load_8 uart_reset REG_RBR 0x7f)) = com uart_reset"
proof -
  have k: "lcr (com uart_keyed) AND LCR_DLAB = 0"
    and kq: "queue (console uart_keyed) = [0x41, 0x42]"
    by (simp_all add: fixture_defs)
  have r: "lcr (com uart_reset) AND LCR_DLAB = 0"
    and rq: "queue (console uart_reset) = []" and rr: "rbr (com uart_reset) = 0"
    by (simp_all add: fixture_defs)
  from load_rbr [OF k, of 0] kq
  have "fst (load_8 uart_keyed REG_RBR 0) = 0x41 \<and>
        rbr (com (snd (load_8 uart_keyed REG_RBR 0))) = 0x41 \<and>
        queue (console (snd (load_8 uart_keyed REG_RBR 0))) = [0x42]"
    by simp
  moreover from load_rbr [OF r, of "0x7f"] rq rr
  have "fst (load_8 uart_reset REG_RBR 0x7f) = 0 \<and>
        com (snd (load_8 uart_reset REG_RBR 0x7f)) = com uart_reset"
    by simp
  ultimately show ?thesis by simp
qed

text \<open>
  C7: with DLAB clear, the byte a load of offset 5 returns has bit 5 (\<open>LSR_RE\<close>, THR is
  empty) set, and has bit 0 (\<open>LSR_DA\<close>, data available) set exactly when the console
  has a buffered byte at that call. The load changes neither registers nor console.
\<close>

theorem load_lsr:
  assumes "lcr (com d) AND LCR_DLAB = 0"
  shows "bit (fst (load_8 d REG_LSR v)) 5 \<and>
         (bit (fst (load_8 d REG_LSR v)) 0 \<longleftrightarrow> has_char (console d)) \<and>
         com (snd (load_8 d REG_LSR v)) = com d \<and>
         console (snd (load_8 d REG_LSR v)) = console d"
  using assms
  by (simp add: load_8_def load_8_regs_def bit_or_iff)

theorem load_lsr_witness:
  "bit (fst (load_8 uart_keyed REG_LSR 0)) 5 \<and> bit (fst (load_8 uart_keyed REG_LSR 0)) 0 \<and>
   bit (fst (load_8 uart_reset REG_LSR 0)) 5 \<and> \<not> bit (fst (load_8 uart_reset REG_LSR 0)) 0"
proof -
  have k: "lcr (com uart_keyed) AND LCR_DLAB = 0" and kq: "has_char (console uart_keyed)"
    by (simp_all add: fixture_defs has_char_iff)
  have r: "lcr (com uart_reset) AND LCR_DLAB = 0" and rq: "\<not> has_char (console uart_reset)"
    by (simp_all add: fixture_defs has_char_iff)
  from load_lsr [OF k, of 0] kq
  have "bit (fst (load_8 uart_keyed REG_LSR 0)) 5 \<and> bit (fst (load_8 uart_keyed REG_LSR 0)) 0"
    by blast
  moreover from load_lsr [OF r, of 0] rq
  have "bit (fst (load_8 uart_reset REG_LSR 0)) 5 \<and> \<not> bit (fst (load_8 uart_reset REG_LSR 0)) 0"
    by blast
  ultimately show ?thesis by simp
qed

text \<open>
  What the code returns for a load of offset 2 with DLAB clear: \<open>IIR_RD_LSR\<close> (0x06)
  when the console has a buffered byte and \<open>IIR_TX_RDY\<close> (0x02) otherwise; registers
  and console are unchanged.
\<close>

lemma load_8_iir:
  assumes "lcr (com d) AND LCR_DLAB = 0"
  shows "fst (load_8 d REG_IIR v) = (if has_char (console d) then IIR_RD_LSR else IIR_TX_RDY) \<and>
         com (snd (load_8 d REG_IIR v)) = com d \<and>
         console (snd (load_8 d REG_IIR v)) = console d"
  using assms by (simp add: load_8_def load_8_regs_def)

text \<open>
  C2 fails on the code: on the constructed device after the host has typed two bytes
  (DLAB clear, input buffered) a load of offset 2 returns 0x06 (\<open>IIR_RD_LSR\<close>, which
  the source documents as reset by an LSR read) and not 0x04 (\<open>IIR_RX_RDY\<close>,
  documented as reset by an RBR read). The condition it reports behaves as the receive
  condition does: a load of LSR leaves it standing, and it goes away, giving 0x02, once
  loads of RBR have taken the two bytes.
\<close>

theorem load_iir_wrong_ident:
  "lcr (com uart_keyed) AND LCR_DLAB = 0 \<and> has_char (console uart_keyed) \<and>
   fst (load_8 uart_keyed REG_IIR 0) = 0x06 \<and>
   fst (load_8 uart_keyed REG_IIR 0) \<noteq> IIR_RX_RDY \<and>
   fst (load_8 (snd (load_8 uart_keyed REG_LSR 0)) REG_IIR 0) = 0x06 \<and>
   fst (load_8 (snd (load_8 (snd (load_8 uart_keyed REG_RBR 0)) REG_RBR 0)) REG_IIR 0) = 0x02"
  by (simp add: fixture_defs uart_defs)

text \<open>
  C10: with DLAB clear, a load of offset 1 returns the byte a load of offset 2 returns
  in the same state, whatever the caller's variable held before: \<open>IIR_RD_LSR\<close> or
  \<open>IIR_TX_RDY\<close> according to the console's queue. The result does not depend on the
  stored IER.
\<close>

theorem load_ier_is_iir:
  assumes "lcr (com d) AND LCR_DLAB = 0"
  shows "fst (load_8 d REG_IER v) = fst (load_8 d REG_IIR w) \<and>
         fst (load_8 d REG_IER v) = (if has_char (console d) then IIR_RD_LSR else IIR_TX_RDY) \<and>
         (\<forall>e. fst (load_8 (d\<lparr>com := (com d)\<lparr>ier := e\<rparr>\<rparr>) REG_IER v) = fst (load_8 d REG_IER v))"
  using assms by (simp add: load_8_def load_8_regs_def)

theorem load_ier_is_iir_witness:
  "fst (load_8 uart_keyed REG_IER 0) = fst (load_8 uart_keyed REG_IIR 0xff) \<and>
   fst (load_8 uart_keyed REG_IER 0) = 0x06 \<and>
   fst (load_8 (uart_keyed\<lparr>com := (com uart_keyed)\<lparr>ier := 0x0f\<rparr>\<rparr>) REG_IER 0) = 0x06"
proof -
  have k: "lcr (com uart_keyed) AND LCR_DLAB = 0" and kq: "has_char (console uart_keyed)"
    by (simp_all add: fixture_defs has_char_iff)
  note t = load_ier_is_iir [OF k, of 0 "0xff"]
  have a: "fst (load_8 uart_keyed REG_IER 0) = fst (load_8 uart_keyed REG_IIR 0xff)"
    by (rule t [THEN conjunct1])
  have b: "fst (load_8 uart_keyed REG_IER 0) = 0x06"
    using t [THEN conjunct2, THEN conjunct1] kq by simp
  have c: "\<forall>e. fst (load_8 (uart_keyed\<lparr>com := (com uart_keyed)\<lparr>ier := e\<rparr>\<rparr>) REG_IER 0) =
                fst (load_8 uart_keyed REG_IER 0)"
    by (rule t [THEN conjunct2, THEN conjunct2])
  from c b have "fst (load_8 (uart_keyed\<lparr>com := (com uart_keyed)\<lparr>ier := 0x0f\<rparr>\<rparr>) REG_IER 0) = 0x06"
    by simp
  with a b show ?thesis by blast
qed

text \<open>
  C1 fails on the code: after the guest has stored 0x01 in IER (DLAB clear, no input
  buffered) the stored IER is 0x01 and a load of offset 1 returns 0x02.
\<close>

theorem load_ier_fallthrough:
  "lcr (com (store_8 uart_reset REG_IER 0x01)) AND LCR_DLAB = 0 \<and>
   ier (com (store_8 uart_reset REG_IER 0x01)) = 0x01 \<and>
   fst (load_8 (store_8 uart_reset REG_IER 0x01) REG_IER 0) = 0x02"
  by (simp add: fixture_defs uart_defs)

subsection \<open>The interrupt enable register\<close>

lemma load_8_ier_inv: "ier (com (snd (load_8 d va v))) = ier (com d)"
  by (simp add: load_8_def load_8_dlab_def load_8_regs_def read_char_def Let_def
      split: prod.split)

lemma store_8_ier_inv:
  "ier (com d) AND 0xf0 = 0 \<Longrightarrow> ier (com (store_8 d va v)) AND 0xf0 = 0"
  by (simp add: store_8_def store_8_dlab_def store_8_regs_def Let_def and.assoc)

lemma service_ier_inv: "ier (com (service d)) = ier (com d)"
  by (simp add: service_def)

lemma reachable_ier: "reachable d \<Longrightarrow> ier (com d) AND 0xf0 = 0"
proof (induction rule: reachable.induct)
  case (reach_init lg room line)
  show ?case by (simp add: uart_mmio_device_init_def)
next
  case (reach_load d va val)
  then show ?case by (simp add: load_8_ier_inv)
next
  case (reach_store d va val)
  then show ?case by (simp add: store_8_ier_inv)
next
  case (reach_service d)
  then show ?case by (simp add: service_ier_inv)
next
  case (reach_console d c)
  then show ?case by simp
qed

text \<open>
  C9: with DLAB clear, a store of \<open>v\<close> to offset 1 leaves \<open>v AND 0x0f\<close> in IER; and in
  every reachable state of the device the upper four bits of the stored IER are zero.
\<close>

theorem store_ier_masked:
  "(lcr (com d) AND LCR_DLAB = 0 \<longrightarrow> ier (com (store_8 d REG_IER v)) = v AND IER_MASK) \<and>
   (reachable d \<longrightarrow> ier (com d) AND 0xf0 = 0)"
  by (simp add: reachable_ier store_8_def store_8_regs_def Let_def)

theorem store_ier_masked_witness:
  "ier (com (store_8 uart_reset REG_IER 0xff)) = 0x0f \<and>
   ier (com (store_8 uart_reset REG_IER 0xff)) AND 0xf0 = 0"
proof -
  have r: "reachable uart_reset"
    unfolding uart_reset_def by (rule reach_init)
  have l: "lcr (com uart_reset) AND LCR_DLAB = 0"
    by (simp add: fixture_defs)
  from store_ier_masked [of uart_reset "0xff"] l
  have "ier (com (store_8 uart_reset REG_IER 0xff)) = 0x0f" by simp
  moreover from store_ier_masked [of "store_8 uart_reset REG_IER 0xff"] reach_store [OF r]
  have "ier (com (store_8 uart_reset REG_IER 0xff)) AND 0xf0 = 0" by blast
  ultimately show ?thesis by simp
qed

subsection \<open>Accesses with DLAB set\<close>

text \<open>
  What the first switch of \<open>load_8\<close> and \<open>store_8\<close> does at the offsets it has no
  case for: the load hands back the byte the caller's variable held, the store changes
  no register, and so a store to LCR cannot clear DLAB again.
\<close>

lemma load_8_dlab_default:
  "lcr (com d) AND LCR_DLAB \<noteq> 0 \<Longrightarrow> va \<noteq> REG_DLL \<Longrightarrow> va \<noteq> REG_DLM \<Longrightarrow>
   fst (load_8 d va v) = v"
  by (simp add: load_8_def load_8_dlab_def)

lemma store_8_dlab_default:
  "lcr (com d) AND LCR_DLAB \<noteq> 0 \<Longrightarrow> va \<noteq> REG_DLL \<Longrightarrow> va \<noteq> REG_DLM \<Longrightarrow>
   com (store_8 d va v) = com d \<and> console (store_8 d va v) = console d"
  by (simp add: store_8_def store_8_dlab_def Let_def)

lemma store_8_dlab_sticky:
  "lcr (com d) AND LCR_DLAB \<noteq> 0 \<Longrightarrow> lcr (com (store_8 d va v)) = lcr (com d)"
  by (simp add: store_8_def store_8_dlab_def Let_def)

text \<open>
  The part of the divisor protocol that the code carries out: once a byte with the DLAB
  bit has been stored to LCR, stores of \<open>x\<close> and \<open>y\<close> to offsets 0 and 1 reach DLL
  and DLM and leave RBR, THR and IER alone, and loads of offsets 0 and 1 return them.
\<close>

lemma store_8_divisor:
  assumes "l AND LCR_DLAB \<noteq> 0"
  shows "dll (com (store_8 (store_8 (store_8 d REG_LCR l) REG_DLL x) REG_DLM y)) = x"
    and "dlm (com (store_8 (store_8 (store_8 d REG_LCR l) REG_DLL x) REG_DLM y)) = y"
    and "rbr (com (store_8 (store_8 (store_8 d REG_LCR l) REG_DLL x) REG_DLM y)) = rbr (com d)"
    and "thr (com (store_8 (store_8 (store_8 d REG_LCR l) REG_DLL x) REG_DLM y)) = thr (com d)"
    and "ier (com (store_8 (store_8 (store_8 d REG_LCR l) REG_DLL x) REG_DLM y)) = ier (com d)"
    and "fst (load_8 (store_8 (store_8 (store_8 d REG_LCR l) REG_DLL x) REG_DLM y) REG_DLL v) = x"
    and "fst (load_8 (store_8 (store_8 (store_8 d REG_LCR l) REG_DLL x) REG_DLM y) REG_DLM v) = y"
  using assms
  by (simp_all add: store_8_def store_8_dlab_def store_8_regs_def
      load_8_def load_8_dlab_def Let_def)

text \<open>
  C3 fails on the code: \<open>uart_dlab\<close> is \<open>uart_reset\<close> with 0x80 in LCR and nothing
  else changed. A load of offset 6 (MSR) returns 0xa0 on \<open>uart_reset\<close> and the caller's
  0 on \<open>uart_dlab\<close>; a store of 0x5a to offset 7 (SCR) reaches SCR on \<open>uart_reset\<close>
  and changes nothing on \<open>uart_dlab\<close>.
\<close>

theorem dlab_hides_registers:
  "lcr (com uart_reset) AND LCR_DLAB = 0 \<and> lcr (com uart_dlab) AND LCR_DLAB \<noteq> 0 \<and>
   uart_dlab = uart_reset\<lparr>com := (com uart_reset)\<lparr>lcr := 0x80\<rparr>\<rparr> \<and>
   fst (load_8 uart_reset REG_MSR 0) = 0xa0 \<and> fst (load_8 uart_dlab REG_MSR 0) = 0 \<and>
   scr (com (store_8 uart_reset REG_SCR 0x5a)) = 0x5a \<and>
   store_8 uart_dlab REG_SCR 0x5a = uart_dlab"
  by (simp add: fixture_defs uart_defs)

text \<open>
  C5 fails on the code: after LCR := 0x80, DLL := 0x55, DLM := 0xaa (which leave RBR,
  THR and IER at 0) the store LCR := 0x03 changes nothing, LCR still reads 0x80, and
  loads of offsets 0 and 1 still return the divisor bytes 0x55 and 0xaa.
\<close>

theorem dlab_never_cleared:
  "dll (com uart_divisor) = 0x55 \<and> dlm (com uart_divisor) = 0xaa \<and>
   rbr (com uart_divisor) = 0 \<and> thr (com uart_divisor) = 0 \<and> ier (com uart_divisor) = 0 \<and>
   store_8 uart_divisor REG_LCR 0x03 = uart_divisor \<and>
   lcr (com (store_8 uart_divisor REG_LCR 0x03)) = 0x80 \<and>
   fst (load_8 (store_8 uart_divisor REG_LCR 0x03) REG_RBR 0) = 0x55 \<and>
   fst (load_8 (store_8 uart_divisor REG_LCR 0x03) REG_IER 0) = 0xaa"
  by (simp add: fixture_defs uart_defs)

end
